theory Spec2Isabelle
  imports Complex_Main
begin

section \<open>JavaScript numbers and snapshot fields\<close>

text \<open>
  The engine snapshots are plain JavaScript objects whose fields hold numbers. A number is
  modelled as a mathematical real, or one of the two infinities, or NaN; the binary rounding
  of intermediate results is not modelled. A field that is absent (\<^verbatim>\<open>undefined\<close>) is
  \<open>None\<close>, and so is a snapshot that is \<^verbatim>\<open>null\<close>.
\<close>

datatype xnum = Fin real | PosInf | NegInf

datatype jsnum = Num xnum | NaN

type_synonym field = "jsnum option"

text \<open>
  \<^verbatim>\<open>x || d\<close> with a numeric literal \<open>d\<close>: the left operand is taken unless it is falsy,
  and the falsy values of a numeric field are \<^verbatim>\<open>undefined\<close>, \<^verbatim>\<open>NaN\<close> and zero. The result
  is therefore never NaN.
\<close>

fun or_default :: "field \<Rightarrow> real \<Rightarrow> xnum" where
  "or_default None d = Fin d"
| "or_default (Some NaN) d = Fin d"
| "or_default (Some (Num (Fin v))) d = (if v = 0 then Fin d else Fin v)"
| "or_default (Some (Num PosInf)) d = PosInf"
| "or_default (Some (Num NegInf)) d = NegInf"

text \<open>\<^verbatim>\<open>Math.round\<close>: the nearest integer, a tie going up.\<close>

definition js_round :: "real \<Rightarrow> real" where
  "js_round v = of_int \<lfloor>v + 1 / 2\<rfloor>"

text \<open>\<^verbatim>\<open>clamp(v) = Math.max(0, Math.min(100, Math.round(v)))\<close>\<close>

fun clamp :: "xnum \<Rightarrow> real" where
  "clamp (Fin v) = max 0 (min 100 (js_round v))"
| "clamp PosInf = 100"
| "clamp NegInf = 0"

section \<open>The engine snapshots\<close>

text \<open>
  The elements of the arrays that the profile only passes on (conditions, micro-expressions,
  the deception timeline) are of no concern here.
\<close>

typedecl opaque

record metrics =
  aggression :: field
  stress :: field
  tension :: field
  badIntent :: field
  stability :: field

record threat_snapshot =
  metrics :: "metrics option"

record biometrics =
  expressionRange :: field
  psychomotorIndex :: field
  gazeStability :: field
  microTremorScore :: field

record neuro_snapshot =
  biometrics :: "biometrics option"
  conditions :: "opaque list option"

record deception_snapshot =
  truthfulnessIndex :: field
  deceptionProbability :: field
  microExpressions :: "opaque list option"
  deceptionTimeline :: "opaque list option"

record vsa_snapshot =
  voiceStressScore :: field

text \<open>The empty object \<^verbatim>\<open>{}\<close> read as each of the three records.\<close>

definition no_metrics :: metrics where
  "no_metrics = \<lparr> metrics.aggression = None, metrics.stress = None, metrics.tension = None,
     badIntent = None, stability = None \<rparr>"

definition no_biometrics :: biometrics where
  "no_biometrics = \<lparr> expressionRange = None, psychomotorIndex = None, gazeStability = None,
     microTremorScore = None \<rparr>"

definition no_deception :: deception_snapshot where
  "no_deception = \<lparr> truthfulnessIndex = None, deceptionProbability = None,
     microExpressions = None, deceptionTimeline = None \<rparr>"

text \<open>
  \<^verbatim>\<open>threat?.metrics || {}\<close>, \<^verbatim>\<open>neuro?.biometrics || {}\<close> and \<^verbatim>\<open>deception || {}\<close>: the
  object when the snapshot and the field are there, the empty object otherwise.
\<close>

fun metrics_or_empty :: "threat_snapshot option \<Rightarrow> metrics" where
  "metrics_or_empty None = no_metrics"
| "metrics_or_empty (Some t) = (case metrics t of None \<Rightarrow> no_metrics | Some m \<Rightarrow> m)"

fun biometrics_or_empty :: "neuro_snapshot option \<Rightarrow> biometrics" where
  "biometrics_or_empty None = no_biometrics"
| "biometrics_or_empty (Some n) =
     (case biometrics n of None \<Rightarrow> no_biometrics | Some b \<Rightarrow> b)"

fun deception_or_empty :: "deception_snapshot option \<Rightarrow> deception_snapshot" where
  "deception_or_empty None = no_deception"
| "deception_or_empty (Some d) = d"

text \<open>\<^verbatim>\<open>vsa?.voiceStressScore\<close> and \<^verbatim>\<open>neuro?.conditions\<close>.\<close>

fun voiceStressScore_opt :: "vsa_snapshot option \<Rightarrow> field" where
  "voiceStressScore_opt None = None"
| "voiceStressScore_opt (Some v) = voiceStressScore v"

fun conditions_opt :: "neuro_snapshot option \<Rightarrow> opaque list option" where
  "conditions_opt None = None"
| "conditions_opt (Some n) = neuro_snapshot.conditions n"

text \<open>\<^verbatim>\<open>a || []\<close> on an array field.\<close>

fun or_empty :: "'a list option \<Rightarrow> 'a list" where
  "or_empty None = []"
| "or_empty (Some xs) = xs"

section \<open>The AlphaEye profile\<close>

record params =
  aggression :: real
  stress :: real
  tension :: real
  suspect :: real
  balance :: real
  charm :: real
  energy :: real
  selfRegulation :: real
  inhibition :: real
  neuroticism :: real

record emotional_variation =
  score :: real
  label :: string

record state_of_mind =
  stability :: real
  pleasure :: real
  quadrant :: string

record profile =
  params :: params
  voiceStress :: real
  deceptionProb :: real
  conditions :: "opaque list"
  microExpressions :: "opaque list"
  deceptionTimeline :: "opaque list"
  emotionalVariation :: emotional_variation
  vitalityIndex :: real
  concentrationIndex :: real
  stateOfMind :: state_of_mind
  timestamp :: nat

text \<open>\<^verbatim>\<open>computeEmotionalVariation(p)\<close>; \<^verbatim>\<open>reduce\<close> runs from the left.\<close>

definition computeEmotionalVariation :: "params \<Rightarrow> emotional_variation" where
  "computeEmotionalVariation p =
    (let neg = [params.aggression p, params.stress p, params.tension p, neuroticism p];
         avg = foldl (\<lambda>a b. a + b) 0 neg / real (length neg);
         variance = foldl (\<lambda>a b. a + (b - avg) ^ 2) 0 neg / real (length neg);
         stdDev = sqrt variance;
         score' = js_round (stdDev * 2)
     in \<lparr> emotional_variation.score = clamp (Fin score'),
          label = (if score' > 30 then ''Unstable''
                   else if score' > 15 then ''Moderate'' else ''Stable'') \<rparr>)"

definition computeVitality :: "real \<Rightarrow> real \<Rightarrow> real \<Rightarrow> real" where
  "computeVitality energy' stress' neuroticism' =
    (let raw = energy' - (stress' * 0.4 + neuroticism' * 0.3);
         sigmoid = (2 / (1 + exp (- raw / 20))) - 1
     in js_round (sigmoid * 100))"

definition computeConcentration :: "real \<Rightarrow> real \<Rightarrow> real \<Rightarrow> real" where
  "computeConcentration gazeStability' inhibition' stress' =
    clamp (Fin (js_round
      (gazeStability' * 0.5 + (100 - inhibition') * 0.3 + (100 - stress') * 0.2)))"

definition classifyStateOfMind :: "params \<Rightarrow> state_of_mind" where
  "classifyStateOfMind p =
    (let stability' = balance p;
         pleasure' = js_round (100 - (params.stress p + params.tension p) / 2)
     in \<lparr> state_of_mind.stability = stability', pleasure = pleasure',
          quadrant =
            (if stability' \<ge> 50 \<and> pleasure' \<ge> 50 then ''Calm & Content''
             else if stability' < 50 \<and> pleasure' \<ge> 50 then ''Excited & Active''
             else if stability' \<ge> 50 \<and> pleasure' < 50 then ''Bored & Low''
             else ''Distressed & Anxious'') \<rparr>)"

text \<open>
  \<^verbatim>\<open>AlphaEye.compute(threat, deception, neuro, vsa)\<close>. The clock read by \<^verbatim>\<open>Date.now()\<close> is
  the extra argument \<open>now\<close>. A local constant of the source carries a prime here, its name
  being the name of a record field.
\<close>

definition compute ::
  "nat \<Rightarrow> threat_snapshot option \<Rightarrow> deception_snapshot option \<Rightarrow> neuro_snapshot option
     \<Rightarrow> vsa_snapshot option \<Rightarrow> profile" where
  "compute now threat deception neuro vsa =
    (let m = metrics_or_empty threat;
         bio = biometrics_or_empty neuro;
         dec = deception_or_empty deception;
         aggression' = clamp (or_default (metrics.aggression m) 30);
         stress' = clamp (or_default (metrics.stress m) 25);
         tension' = clamp (or_default (metrics.tension m) 20);
         suspect' = clamp (or_default (badIntent m) 25);
         balance' = clamp (or_default (metrics.stability m) 60);
         expressionRange' = clamp (or_default (expressionRange bio) 50);
         truthfulness' = clamp (or_default (truthfulnessIndex dec) 70);
         charm' = clamp (Fin (js_round (truthfulness' * 0.6 + expressionRange' * 0.4)));
         energy' = clamp (or_default (psychomotorIndex bio) 50);
         selfRegulation' = clamp (Fin (js_round ((balance' + charm') / 2)));
         gazeStability' = clamp (or_default (gazeStability bio) 60);
         inhibition' = clamp (Fin (js_round (100 - gazeStability')));
         neuroticism' = clamp (or_default (microTremorScore bio) 20);
         params' = \<lparr> params.aggression = aggression', params.stress = stress',
                    params.tension = tension', suspect = suspect', balance = balance',
                    charm = charm', energy = energy', selfRegulation = selfRegulation',
                    inhibition = inhibition', neuroticism = neuroticism' \<rparr>;
         voiceStress' = clamp (or_default (voiceStressScore_opt vsa) 0);
         deceptionProb' = clamp (or_default (deceptionProbability dec) 0);
         conditions' = or_empty (conditions_opt neuro);
         microExpressions' = or_empty (deception_snapshot.microExpressions dec);
         deceptionTimeline' = or_empty (deception_snapshot.deceptionTimeline dec);
         emotionalVariation' = computeEmotionalVariation params';
         vitalityIndex' = computeVitality energy' stress' neuroticism';
         concentrationIndex' = computeConcentration gazeStability' inhibition' stress';
         stateOfMind' = classifyStateOfMind params'
     in \<lparr> profile.params = params', voiceStress = voiceStress',
          deceptionProb = deceptionProb', profile.conditions = conditions',
          profile.microExpressions = microExpressions',
          profile.deceptionTimeline = deceptionTimeline',
          emotionalVariation = emotionalVariation', vitalityIndex = vitalityIndex',
          concentrationIndex = concentrationIndex', stateOfMind = stateOfMind',
          timestamp = now \<rparr>)"

subsection \<open>The dominant state\<close>

text \<open>
  \<^verbatim>\<open>Array.prototype.sort(cmp)\<close> is stable: the language standard requires it. The engine's
  algorithm is not part of the program; a stable insertion sort stands for it. An element
  is put in front of the first one that \<open>cmp\<close> does not order before it.
\<close>

fun insert_by :: "('a \<Rightarrow> 'a \<Rightarrow> real) \<Rightarrow> 'a \<Rightarrow> 'a list \<Rightarrow> 'a list" where
  "insert_by cmp x [] = [x]"
| "insert_by cmp x (y # ys) =
     (if cmp x y \<le> 0 then x # y # ys else y # insert_by cmp x ys)"

definition sort_by :: "('a \<Rightarrow> 'a \<Rightarrow> real) \<Rightarrow> 'a list \<Rightarrow> 'a list" where
  "sort_by cmp xs = foldr (insert_by cmp) xs []"

record candidate =
  key :: string
  score :: real

definition getDominantState :: "params \<Rightarrow> string" where
  "getDominantState p =
    (let states = [
           \<lparr> key = ''high-stress'', candidate.score = params.stress p \<rparr>,
           \<lparr> key = ''high-tension'', candidate.score = params.tension p \<rparr>,
           \<lparr> key = ''high-aggression'', candidate.score = params.aggression p \<rparr>,
           \<lparr> key = ''low-energy'', candidate.score = 100 - energy p \<rparr>,
           \<lparr> key = ''low-balance'', candidate.score = 100 - balance p \<rparr> ];
         sorted = sort_by (\<lambda>a b. candidate.score b - candidate.score a) states;
         top = hd sorted
     in if candidate.score top < 40 then ''balanced'' else key top)"

section \<open>The streaming client\<close>

text \<open>
  \<^verbatim>\<open>OllamaClient.chat\<close> after the request has been answered: the loop that reads the response
  body, cuts it into lines and yields the tokens. The text decoder (in streaming mode) and
  \<^verbatim>\<open>JSON.parse\<close> belong to the platform. The model takes the decoded text of each chunk as
  given, as a list of characters, and takes the parser as a parameter: \<open>None\<close> when
  \<^verbatim>\<open>JSON.parse\<close> (or the reading of the result) throws, otherwise what the loop looks at in
  the parsed record, namely \<^verbatim>\<open>json.message.content\<close> when \<^verbatim>\<open>json.message\<close> is there, and
  whether \<^verbatim>\<open>json.done\<close> is truthy.
\<close>

record chat_record =
  message_content :: "string option"
  done_flag :: bool

definition newline :: char where
  "newline = CHR 0x0A"

text \<open>
  \<^verbatim>\<open>buffer.split('\n')\<close>, as a scan from the left that collects the current line in
  \<open>cur\<close>. The result always has a last element: the text after the last newline.
\<close>

fun split_acc :: "string \<Rightarrow> string \<Rightarrow> string list" where
  "split_acc cur [] = [cur]"
| "split_acc cur (c # cs) =
     (if c = newline then cur # split_acc [] cs else split_acc (cur @ [c]) cs)"

definition split_nl :: "string \<Rightarrow> string list" where
  "split_nl s = split_acc [] s"

text \<open>
  \<^verbatim>\<open>!line.trim()\<close>: the line is empty once its white space is removed. Of the characters
  that \<^verbatim>\<open>trim\<close> removes, these are the ones below 256.
\<close>

definition is_space :: "char \<Rightarrow> bool" where
  "is_space c =
     (c \<in> {CHR 0x09, CHR 0x0A, CHR 0x0B, CHR 0x0C, CHR 0x0D, CHR 0x20, CHR 0xA0})"

definition blank :: "string \<Rightarrow> bool" where
  "blank line = list_all is_space line"

text \<open>
  The \<^verbatim>\<open>for (const line of lines)\<close> loop. The result is the list of tokens yielded and
  whether the generator returned (a record with \<^verbatim>\<open>done\<close> was met). A blank line and a line
  whose parsing throws are passed over.
\<close>

fun for_lines ::
  "(string \<Rightarrow> chat_record option) \<Rightarrow> string list \<Rightarrow> string list \<times> bool" where
  "for_lines parse [] = ([], False)"
| "for_lines parse (line # lines) =
     (if blank line then for_lines parse lines
      else (case parse line of
              None \<Rightarrow> for_lines parse lines
            | Some json \<Rightarrow>
                (let out = (case message_content json of
                              None \<Rightarrow> []
                            | Some c \<Rightarrow> if c \<noteq> [] then [c] else [])
                 in if done_flag json then (out, True)
                    else (out @ fst (for_lines parse lines),
                          snd (for_lines parse lines)))))"

text \<open>
  The \<^verbatim>\<open>while (true)\<close> loop over \<^verbatim>\<open>reader.read()\<close>. The list holds the chunks that the
  reader delivers before it reports the end; at the end the loop breaks and what is left in
  \<open>buffer\<close> is dropped. \<^verbatim>\<open>lines.pop() || ''\<close> is the last piece of the split.
\<close>

fun read_loop ::
  "(string \<Rightarrow> chat_record option) \<Rightarrow> string \<Rightarrow> string list \<Rightarrow> string list \<times> bool" where
  "read_loop parse buffer [] = ([], False)"
| "read_loop parse buffer (value # rest) =
     (let buffer1 = buffer @ value;
          lines = split_nl buffer1;
          buffer2 = last lines;
          lines1 = butlast lines;
          r = for_lines parse lines1
      in if snd r then (fst r, True)
         else (fst r @ fst (read_loop parse buffer2 rest),
               snd (read_loop parse buffer2 rest)))"

text \<open>
  The tokens that \<^verbatim>\<open>chat\<close> yields for a response body delivered in the given chunks, and
  whether it ended on a \<^verbatim>\<open>done\<close> record (\<open>True\<close>) or with the transport (\<open>False\<close>).
\<close>

definition chat :: "(string \<Rightarrow> chat_record option) \<Rightarrow> string list \<Rightarrow> string list \<times> bool" where
  "chat parse chunks = read_loop parse [] chunks"

section \<open>The scan session\<close>

text \<open>
  The repository holds two orchestrators. One has the scan tab and the state machine
  \<^verbatim>\<open>appState\<close> (\<^verbatim>\<open>startScan\<close>, \<^verbatim>\<open>stopScan\<close>, \<^verbatim>\<open>completeScan\<close>); the other is the
  avatar-first page with background scanning (\<^verbatim>\<open>triggerScan\<close> and its own
  \<^verbatim>\<open>startCamera\<close> and \<^verbatim>\<open>completeScan\<close>, which carry the suffix \<open>_bg\<close> here). Both keep
  their state in module-level variables, and one record holds the variables of both: the
  functions of the second never touch \<open>appState\<close>, those of the first never touch
  \<open>chatBubbles\<close>, \<open>avatarState\<close> or \<open>monitorInterval\<close>.

  A stream and a timer are modelled by whether they are held (\<open>True\<close>) or \<^verbatim>\<open>null\<close>. The
  local storage entry of the history is \<open>storedHistory\<close>. The last toast and the chat
  bubbles stand for what the user is shown; drawing and speech are left out. Three
  counters, which the program does not have, record how often a camera and a microphone were
  requested from the browser and how often the engines were rebuilt.

  An \<^verbatim>\<open>async\<close> function is modelled as one step, the answers of the browser being an
  argument. The calls that only draw on the page are left out and taken not to throw.
\<close>

datatype app_state = IDLE | LOADING_MODELS | READY | SCANNING | ANALYZING | RESULTS

record history_entry =
  timestamp :: nat
  params :: params
  stateOfMind :: state_of_mind
  dominantState :: string

text \<open>
  What a call can throw is any value. \<open>Error msg\<close> stands for a thrown value other than
  \<^verbatim>\<open>null\<close> and \<^verbatim>\<open>undefined\<close>, \<open>msg\<close> being what \<^verbatim>\<open>err.message\<close> adds to a string (the
  message of an error object; the word \<^verbatim>\<open>undefined\<close> for a value without one).
  \<open>Nullish\<close> stands for a thrown \<^verbatim>\<open>null\<close> or \<^verbatim>\<open>undefined\<close>: reading \<^verbatim>\<open>err.message\<close> of
  it throws a \<^verbatim>\<open>TypeError\<close>, which is the \<open>None\<close> of \<open>message\<close>.
\<close>

datatype js_thrown = Error string | Nullish

fun message :: "js_thrown \<Rightarrow> string option" where
  "message (Error msg) = Some msg"
| "message Nullish = None"

text \<open>How the promise of an \<^verbatim>\<open>async\<close> function ends.\<close>

datatype settled = Fulfilled | Rejected

record app =
  appState :: app_state
  modelsLoaded :: bool
  isScanning :: bool
  frameCount :: nat
  scanStartTime :: "nat option"
  scanTimer :: bool
  cameraStream :: bool
  audioStream :: bool
  lastProfile :: "profile option"
  scanHistory :: "history_entry list"
  storedHistory :: "history_entry list option"
  toast :: "(string \<times> string) option"
  chatBubbles :: "(string \<times> string) list"
  avatarState :: string
  monitorInterval :: bool
  engineResets :: nat
  cameraRequests :: nat
  microphoneRequests :: nat

text \<open>\<^verbatim>\<open>loadHistory()\<close> and \<^verbatim>\<open>saveHistory()\<close>; the latter stores \<^verbatim>\<open>scanHistory.slice(0, 10)\<close>.\<close>

definition loadHistory :: "app \<Rightarrow> history_entry list" where
  "loadHistory s = (case storedHistory s of Some saved \<Rightarrow> saved | None \<Rightarrow> [])"

definition saveHistory :: "app \<Rightarrow> app" where
  "saveHistory s = s \<lparr> storedHistory := Some (take 10 (scanHistory s)) \<rparr>"

definition showToast :: "string \<Rightarrow> string \<Rightarrow> app \<Rightarrow> app" where
  "showToast msg type s = s \<lparr> toast := Some (msg, type) \<rparr>"

definition appendChatBubble :: "string \<Rightarrow> string \<Rightarrow> app \<Rightarrow> app" where
  "appendChatBubble role text s = s \<lparr> chatBubbles := chatBubbles s @ [(role, text)] \<rparr>"

text \<open>
  What the browser answers to a request for a device: the stream is granted and set up; or
  it is granted and the next step of the \<^verbatim>\<open>try\<close> block throws (\<^verbatim>\<open>video.play()\<close>,
  \<^verbatim>\<open>initAudioContext\<close>), the variable being assigned already; or it is denied.
\<close>

datatype device_outcome = Granted | SetupFailed | Denied

record start_env =
  camera :: device_outcome
  microphone :: device_outcome
  start_now :: nat

subsection \<open>The orchestrator with the state machine\<close>

definition startCamera :: "start_env \<Rightarrow> app \<Rightarrow> bool \<times> app" where
  "startCamera env s =
    (let s1 = s \<lparr> cameraRequests := cameraRequests s + 1 \<rparr>
     in case camera env of
          Granted \<Rightarrow> (True, s1 \<lparr> cameraStream := True \<rparr>)
        | SetupFailed \<Rightarrow>
            (False, showToast ''Camera access denied'' ''error''
                      (s1 \<lparr> cameraStream := True \<rparr>))
        | Denied \<Rightarrow> (False, showToast ''Camera access denied'' ''error'' s1))"

definition stopCamera :: "app \<Rightarrow> app" where
  "stopCamera s = (if cameraStream s then s \<lparr> cameraStream := False \<rparr> else s)"

definition startMicrophone :: "start_env \<Rightarrow> app \<Rightarrow> bool \<times> app" where
  "startMicrophone env s =
    (let s1 = s \<lparr> microphoneRequests := microphoneRequests s + 1 \<rparr>
     in case microphone env of
          Granted \<Rightarrow> (True, s1 \<lparr> audioStream := True \<rparr>)
        | SetupFailed \<Rightarrow> (False, s1 \<lparr> audioStream := True \<rparr>)
        | Denied \<Rightarrow> (False, s1))"

definition stopMicrophone :: "app \<Rightarrow> app" where
  "stopMicrophone s = (if audioStream s then s \<lparr> audioStream := False \<rparr> else s)"

definition stopScan :: "app \<Rightarrow> app" where
  "stopScan s =
    stopMicrophone (stopCamera
      (s \<lparr> isScanning := False, scanTimer := False, appState := READY \<rparr>))"

text \<open>
  \<^verbatim>\<open>startScan()\<close>. Its first statement is
  \<^verbatim>\<open>if (appState === State.SCANNING) { stopScan(); return; }\<close>.
\<close>

definition startScan :: "start_env \<Rightarrow> app \<Rightarrow> app" where
  "startScan env s =
    (if appState s = SCANNING then stopScan s
     else (case startCamera env s of
             (camOk, s1) \<Rightarrow>
               if \<not> camOk then s1
               else (case startMicrophone env s1 of
                       (micOk, s2) \<Rightarrow>
                         s2 \<lparr> engineResets := engineResets s2 + 1,
                              appState := SCANNING,
                              isScanning := True,
                              frameCount := 0,
                              scanStartTime := Some (start_now env),
                              scanTimer := True \<rparr>)))"

text \<open>
  What the engines answer at the end of a scan. Each call returns a snapshot or throws; the
  deception engine is handed the voice snapshot. The two readings of the clock are for the
  profile and for the history entry.
\<close>

record analysis_env =
  vsa_fullAnalysis :: "js_thrown + vsa_snapshot option"
  threat_fullAnalysis :: "js_thrown + threat_snapshot option"
  deception_fullAnalysis :: "vsa_snapshot option \<Rightarrow> js_thrown + deception_snapshot option"
  neuro_analyze :: "js_thrown + neuro_snapshot option"
  compute_now :: nat
  entry_now :: nat

text \<open>
  The head of the \<^verbatim>\<open>try\<close> block of \<^verbatim>\<open>completeScan\<close>, up to the profile: the four calls
  in the order of the source, the first that throws ending the block, then the fusion.
\<close>

definition analyse :: "analysis_env \<Rightarrow> js_thrown + profile" where
  "analyse env =
    (case vsa_fullAnalysis env of
       Inl err \<Rightarrow> Inl err
     | Inr vsaResult \<Rightarrow>
    (case threat_fullAnalysis env of
       Inl err \<Rightarrow> Inl err
     | Inr threatResult \<Rightarrow>
    (case deception_fullAnalysis env vsaResult of
       Inl err \<Rightarrow> Inl err
     | Inr deceptionResult \<Rightarrow>
    (case neuro_analyze env of
       Inl err \<Rightarrow> Inl err
     | Inr neuroResult \<Rightarrow>
         Inr (compute (compute_now env) threatResult deceptionResult neuroResult
                vsaResult)))))"

text \<open>The object that \<^verbatim>\<open>completeScan\<close> puts in front of \<^verbatim>\<open>scanHistory\<close>.\<close>

definition history_entry_of :: "nat \<Rightarrow> profile \<Rightarrow> history_entry" where
  "history_entry_of now pr =
     \<lparr> timestamp = now, params = profile.params pr,
       stateOfMind = profile.stateOfMind pr,
       dominantState = getDominantState (profile.params pr) \<rparr>"

text \<open>
  \<^verbatim>\<open>completeScan()\<close> of the orchestrator with the state machine: \<^verbatim>\<open>try\<close>, \<^verbatim>\<open>catch\<close>, and
  the release of the devices after both. The handler is
  \<^verbatim>\<open>showToast('Analysis error: ' + err.message, 'error'); appState = State.READY;\<close>. When
  the reading of \<^verbatim>\<open>err.message\<close> throws, the exception leaves the handler and the function:
  the assignment and the statements after the \<^verbatim>\<open>try\<close> do not run and the promise is
  rejected. The result is how the promise ends, and the session as the call leaves it.
\<close>

definition completeScan :: "analysis_env \<Rightarrow> app \<Rightarrow> settled \<times> app" where
  "completeScan env s =
    (let s1 = s \<lparr> isScanning := False, scanTimer := False, appState := ANALYZING \<rparr>;
         r = (case analyse env of
                Inr pr \<Rightarrow>
                  (let s3 = s1 \<lparr> lastProfile := Some pr \<rparr>;
                       s4 = s3 \<lparr> scanHistory :=
                                   history_entry_of (entry_now env) pr # scanHistory s3 \<rparr>;
                       s5 = saveHistory s4;
                       s6 = s5 \<lparr> appState := RESULTS \<rparr>
                   in Some (showToast ''Scan complete! Viewing results.'' ''success'' s6))
              | Inl err \<Rightarrow>
                  (case message err of
                     None \<Rightarrow> None
                   | Some msg \<Rightarrow>
                       Some ((showToast (''Analysis error: '' @ msg) ''error'' s1)
                               \<lparr> appState := READY \<rparr>)))
     in case r of
          None \<Rightarrow> (Rejected, s1)
        | Some s2 \<Rightarrow> (Fulfilled, stopMicrophone (stopCamera s2)))"

text \<open>A run of scans that reach their end, one after the other.\<close>

definition complete_scans :: "analysis_env list \<Rightarrow> app \<Rightarrow> app" where
  "complete_scans envs s = fold (\<lambda>env s'. snd (completeScan env s')) envs s"

subsection \<open>The avatar-first orchestrator\<close>

text \<open>\<^verbatim>\<open>String.prototype.toLowerCase\<close> on the letters A to Z.\<close>

definition toLowerCase :: "string \<Rightarrow> string" where
  "toLowerCase text =
     map (\<lambda>c. let n = (of_char c :: nat)
               in if 65 \<le> n \<and> n \<le> 90 then char_of (n + 32) else c) text"

text \<open>
  The labels of \<^verbatim>\<open>TherapyEngine.directions\<close>, and the label of
  \<^verbatim>\<open>getDirection(state) = directions[state] || directions['balanced']\<close>.
\<close>

fun direction_label :: "string \<Rightarrow> string option" where
  "direction_label state =
     (if state = ''high-stress'' then Some ''Calming''
      else if state = ''high-tension'' then Some ''Relaxing''
      else if state = ''low-energy'' then Some ''Uplifting''
      else if state = ''high-aggression'' then Some ''Soothing''
      else if state = ''low-balance'' then Some ''Centering''
      else if state = ''balanced'' then Some ''Balanced''
      else None)"

definition getDirection_label :: "string \<Rightarrow> string" where
  "getDirection_label state =
     (case direction_label state of Some l \<Rightarrow> l | None \<Rightarrow> ''Balanced'')"

text \<open>This \<^verbatim>\<open>startCamera\<close> begins with \<^verbatim>\<open>if (cameraStream) return true\<close>.\<close>

definition startCamera_bg :: "start_env \<Rightarrow> app \<Rightarrow> bool \<times> app" where
  "startCamera_bg env s =
    (if cameraStream s then (True, s)
     else (let s1 = s \<lparr> cameraRequests := cameraRequests s + 1 \<rparr>
           in case camera env of
                Granted \<Rightarrow> (True, s1 \<lparr> cameraStream := True \<rparr>)
              | SetupFailed \<Rightarrow> (False, s1 \<lparr> cameraStream := True \<rparr>)
              | Denied \<Rightarrow> (False, s1)))"

text \<open>\<^verbatim>\<open>triggerScan()\<close>. Its first statement is \<^verbatim>\<open>if (isScanning) return\<close>.\<close>

definition triggerScan :: "start_env \<Rightarrow> app \<Rightarrow> app" where
  "triggerScan env s =
    (if isScanning s then s
     else if \<not> modelsLoaded s then showToast ''Face detection not ready'' ''error'' s
     else (case startCamera_bg env s of
             (camOk, s1) \<Rightarrow>
               if \<not> camOk then
                 appendChatBubble ''assistant''
                   ''I couldn't access your camera. Please allow camera access and try again.''
                   (showToast ''Camera access required for scanning'' ''error'' s1)
               else (case startMicrophone env s1 of
                       (micOk, s2) \<Rightarrow>
                         s2 \<lparr> engineResets := engineResets s2 + 1,
                              isScanning := True,
                              frameCount := 0,
                              scanStartTime := Some (start_now env),
                              avatarState := ''scanning'',
                              scanTimer := True \<rparr>)))"

text \<open>
  \<^verbatim>\<open>startMonitoring()\<close>, as far as it runs at once: nothing when monitoring is on; with a
  camera held \<^verbatim>\<open>startCamera\<close> returns at once; otherwise a camera is requested. What
  follows the answer (\<^verbatim>\<open>.then\<close>) runs after the caller has finished and is not part of
  this step.
\<close>

definition startMonitoring :: "app \<Rightarrow> app" where
  "startMonitoring s =
    (if monitorInterval s then s
     else if cameraStream s then s
     else s \<lparr> cameraRequests := cameraRequests s + 1 \<rparr>)"

text \<open>
  \<^verbatim>\<open>completeScan()\<close> of the avatar-first orchestrator. Its handler does not read the
  thrown value (it only logs it), so it cannot throw.
\<close>

definition completeScan_bg :: "analysis_env \<Rightarrow> app \<Rightarrow> app" where
  "completeScan_bg env s =
    (let s1 = s \<lparr> isScanning := False, scanTimer := False \<rparr>;
         s2 = (case analyse env of
                 Inr pr \<Rightarrow>
                   (let s3 = s1 \<lparr> lastProfile := Some pr \<rparr>;
                        s4 = s3 \<lparr> scanHistory :=
                                    history_entry_of (entry_now env) pr # scanHistory s3 \<rparr>;
                        s5 = saveHistory s4;
                        s6 = s5 \<lparr> avatarState := ''idle'' \<rparr>;
                        state = getDominantState (profile.params pr);
                        label' = getDirection_label state;
                        quadrant' = quadrant (profile.stateOfMind pr);
                        s7 = appendChatBubble ''assistant''
                               (''I've completed your reading! Your state of mind: ''
                                @ quadrant' @ ''. I'm here with '' @ toLowerCase label'
                                @ '' guidance. Check the Results tab for your full profile, or let's talk about how you're feeling.'')
                               s6
                    in startMonitoring s7)
               | Inl err \<Rightarrow>
                   appendChatBubble ''assistant''
                     ''I had trouble reading you this time. Let's just chat instead!''
                     (s1 \<lparr> avatarState := ''idle'' \<rparr>))
     in stopMicrophone (stopCamera s2))"

section \<open>Example inputs\<close>

text \<open>
  The threat snapshot of the worked example:
  \<^verbatim>\<open>{metrics: {aggression: 80, stress: 70, tension: 60, badIntent: 50, stability: 20}}\<close>.
\<close>

definition threat_example :: threat_snapshot where
  "threat_example = \<lparr> metrics = Some \<lparr> metrics.aggression = Some (Num (Fin 80)),
      metrics.stress = Some (Num (Fin 70)), metrics.tension = Some (Num (Fin 60)),
      badIntent = Some (Num (Fin 50)), stability = Some (Num (Fin 20)) \<rparr> \<rparr>"

text \<open>A threat snapshot whose only field is an aggression of exactly zero.\<close>

definition threat_zero_aggression :: threat_snapshot where
  "threat_zero_aggression =
     \<lparr> metrics = Some (no_metrics \<lparr> metrics.aggression := Some (Num (Fin 0)) \<rparr>) \<rparr>"

text \<open>
  The two lines of the streaming example, and the example's two chunks: the first line is
  cut inside its string.
\<close>

definition hi_line :: string where
  \<open>hi_line = ''{"message":{"content":"Hi"}}''\<close>

definition done_line :: string where
  \<open>done_line = ''{"done":true}''\<close>

definition chunk1 :: string where
  \<open>chunk1 = ''{"message":{"content":"Hi''\<close>

definition chunk2 :: string where
  \<open>chunk2 = ''"}}'' @ [newline] @ ''{"done":true}'' @ [newline]\<close>

text \<open>
  A stand-in for \<^verbatim>\<open>JSON.parse\<close> that knows the two lines and throws on any other.
\<close>

definition parse_example :: "string \<Rightarrow> chat_record option" where
  "parse_example line =
     (if line = hi_line
        then Some \<lparr> message_content = Some ''Hi'', done_flag = False \<rparr>
      else if line = done_line
        then Some \<lparr> message_content = None, done_flag = True \<rparr>
      else None)"

text \<open>
  A session after the models have loaded, with no history; a browser that grants both
  devices; engines that answer; engines of which the last call throws an error object; and
  engines of which the last call throws \<^verbatim>\<open>null\<close>.
\<close>

definition ready_app :: app where
  "ready_app = \<lparr> appState = READY, modelsLoaded = True, isScanning = False, frameCount = 0,
     scanStartTime = None, scanTimer = False, cameraStream = False, audioStream = False,
     lastProfile = None, scanHistory = [], storedHistory = None, toast = None,
     chatBubbles = [], avatarState = ''idle'', monitorInterval = False, engineResets = 0,
     cameraRequests = 0, microphoneRequests = 0 \<rparr>"

definition granted_env :: start_env where
  "granted_env = \<lparr> camera = Granted, microphone = Granted, start_now = 1000 \<rparr>"

definition ok_env :: analysis_env where
  "ok_env = \<lparr> vsa_fullAnalysis = Inr None, threat_fullAnalysis = Inr (Some threat_example),
     deception_fullAnalysis = (\<lambda>v. Inr None), neuro_analyze = Inr None,
     compute_now = 34000, entry_now = 34001 \<rparr>"

definition failing_env :: analysis_env where
  "failing_env = ok_env \<lparr> neuro_analyze := Inl (Error ''frame history unavailable'') \<rparr>"

definition null_throw_env :: analysis_env where
  "null_throw_env = ok_env \<lparr> neuro_analyze := Inl Nullish \<rparr>"

section \<open>Bounds of the profile\<close>

lemma clamp_ge: "0 \<le> clamp x"
  by (cases x) simp_all

lemma clamp_le: "clamp x \<le> 100"
  by (cases x) simp_all

lemma js_round_le: "v \<le> 100 \<Longrightarrow> js_round v \<le> 100"
  unfolding js_round_def by (simp add: floor_le_iff)

lemma js_round_ge: "- 100 \<le> v \<Longrightarrow> - 100 \<le> js_round v"
proof -
  assume "- 100 \<le> v"
  then have "(- 100::int) \<le> \<lfloor>v + 1 / 2\<rfloor>"
    by (simp add: le_floor_iff)
  then have "real_of_int (- 100) \<le> real_of_int \<lfloor>v + 1 / 2\<rfloor>"
    by (simp only: of_int_le_iff)
  then show ?thesis by (simp add: js_round_def)
qed

text \<open>The logistic squash stays strictly between \<open>-1\<close> and \<open>1\<close>.\<close>

lemma sigmoid_bounds: "- 1 < 2 / (1 + exp (x::real)) - 1 \<and> 2 / (1 + exp x) - 1 < 1"
proof -
  have p1: "0 < 1 + exp x" by (simp add: add_pos_pos)
  have "2 / (1 + exp x) < 2" by (simp add: pos_divide_less_eq[OF p1])
  moreover have "0 < 2 / (1 + exp x)" using p1 by simp
  ultimately show ?thesis by simp
qed

lemma computeVitality_ge: "- 100 \<le> computeVitality e s n"
proof -
  have "- 100 \<le> (2 / (1 + exp (- (e - (s * 0.4 + n * 0.3)) / 20)) - 1) * 100"
    using sigmoid_bounds [of "- (e - (s * 0.4 + n * 0.3)) / 20"] by simp
  then show ?thesis
    unfolding computeVitality_def Let_def by (rule js_round_ge)
qed

lemma computeVitality_le: "computeVitality e s n \<le> 100"
proof -
  have "(2 / (1 + exp (- (e - (s * 0.4 + n * 0.3)) / 20)) - 1) * 100 \<le> 100"
    using sigmoid_bounds [of "- (e - (s * 0.4 + n * 0.3)) / 20"] by simp
  then show ?thesis
    unfolding computeVitality_def Let_def by (rule js_round_le)
qed

text \<open>The fields of the computed profile, read off the definition one at a time.\<close>

lemma compute_params:
  "profile.params (compute now threat deception neuro vsa) =
    \<lparr> params.aggression = clamp (or_default (metrics.aggression (metrics_or_empty threat)) 30),
      params.stress = clamp (or_default (metrics.stress (metrics_or_empty threat)) 25),
      params.tension = clamp (or_default (metrics.tension (metrics_or_empty threat)) 20),
      suspect = clamp (or_default (badIntent (metrics_or_empty threat)) 25),
      balance = clamp (or_default (metrics.stability (metrics_or_empty threat)) 60),
      charm = clamp (Fin (js_round
         (clamp (or_default (truthfulnessIndex (deception_or_empty deception)) 70) * 0.6
          + clamp (or_default (expressionRange (biometrics_or_empty neuro)) 50) * 0.4))),
      energy = clamp (or_default (psychomotorIndex (biometrics_or_empty neuro)) 50),
      selfRegulation = clamp (Fin (js_round
         ((clamp (or_default (metrics.stability (metrics_or_empty threat)) 60)
           + clamp (Fin (js_round
         (clamp (or_default (truthfulnessIndex (deception_or_empty deception)) 70) * 0.6
          + clamp (or_default (expressionRange (biometrics_or_empty neuro)) 50) * 0.4)))) / 2))),
      inhibition = clamp (Fin (js_round
         (100 - clamp (or_default (gazeStability (biometrics_or_empty neuro)) 60)))),
      neuroticism = clamp (or_default (microTremorScore (biometrics_or_empty neuro)) 20) \<rparr>"
  unfolding compute_def Let_def by (simp only: profile.select_convs)

lemma compute_vitalityIndex:
  "vitalityIndex (compute now threat deception neuro vsa) =
     computeVitality (energy (profile.params (compute now threat deception neuro vsa)))
       (params.stress (profile.params (compute now threat deception neuro vsa)))
       (neuroticism (profile.params (compute now threat deception neuro vsa)))"
  unfolding compute_def Let_def by (simp only: profile.select_convs params.select_convs)

lemma compute_concentrationIndex_bounds:
  "0 \<le> concentrationIndex (compute now threat deception neuro vsa) \<and>
   concentrationIndex (compute now threat deception neuro vsa) \<le> 100"
  unfolding compute_def Let_def computeConcentration_def
  by (simp only: profile.select_convs clamp_ge clamp_le simp_thms)

lemma compute_stateOfMind:
  "profile.stateOfMind (compute now threat deception neuro vsa) =
     classifyStateOfMind (profile.params (compute now threat deception neuro vsa))"
  unfolding compute_def Let_def by (simp only: profile.select_convs)

lemma compute_emotionalVariation:
  "emotionalVariation (compute now threat deception neuro vsa) =
     computeEmotionalVariation (profile.params (compute now threat deception neuro vsa))"
  unfolding compute_def Let_def by (simp only: profile.select_convs)

text \<open>
  Claim C1. Whatever the four snapshots are (each may be null, each field may be absent,
  zero, NaN, infinite or any real), the profile returned by \<open>compute\<close> has its ten primary
  parameters between 0 and 100, its vitality index between -100 and 100, and its
  concentration index between 0 and 100.
\<close>

theorem compute_in_range:
  "(let pr = compute now threat deception neuro vsa; p = profile.params pr in
    0 \<le> params.aggression p \<and> params.aggression p \<le> 100 \<and>
    0 \<le> params.stress p \<and> params.stress p \<le> 100 \<and>
    0 \<le> params.tension p \<and> params.tension p \<le> 100 \<and>
    0 \<le> suspect p \<and> suspect p \<le> 100 \<and>
    0 \<le> balance p \<and> balance p \<le> 100 \<and>
    0 \<le> charm p \<and> charm p \<le> 100 \<and>
    0 \<le> energy p \<and> energy p \<le> 100 \<and>
    0 \<le> selfRegulation p \<and> selfRegulation p \<le> 100 \<and>
    0 \<le> inhibition p \<and> inhibition p \<le> 100 \<and>
    0 \<le> neuroticism p \<and> neuroticism p \<le> 100 \<and>
    - 100 \<le> vitalityIndex pr \<and> vitalityIndex pr \<le> 100 \<and>
    0 \<le> concentrationIndex pr \<and> concentrationIndex pr \<le> 100)"
  unfolding Let_def compute_vitalityIndex
  by (simp only: compute_params params.select_convs clamp_ge clamp_le
       computeVitality_ge computeVitality_le compute_concentrationIndex_bounds simp_thms)

section \<open>The dominant state\<close>

lemma hd_insert_by:
  "hd (insert_by cmp x ys) = (if ys = [] \<or> cmp x (hd ys) \<le> 0 then x else hd ys)"
  by (cases ys) simp_all

lemma insert_by_nonempty: "insert_by cmp x ys \<noteq> []"
  by (cases ys) simp_all

lemma sort_by_Nil: "sort_by cmp [] = []"
  by (simp add: sort_by_def)

lemma sort_by_Cons: "sort_by cmp (x # xs) = insert_by cmp x (sort_by cmp xs)"
  by (simp add: sort_by_def)

lemma sort_by_nonempty: "sort_by cmp (x # xs) \<noteq> []"
  by (simp add: sort_by_Cons insert_by_nonempty)

lemma hd_sort_by_single: "hd (sort_by cmp [x]) = x"
  by (simp add: sort_by_Cons sort_by_Nil)

lemma hd_sort_by_Cons:
  "hd (sort_by cmp (x # y # ys)) =
     (if cmp x (hd (sort_by cmp (y # ys))) \<le> 0 then x else hd (sort_by cmp (y # ys)))"
  by (simp only: sort_by_Cons [of cmp x] hd_insert_by) (simp add: sort_by_nonempty)

text \<open>
  With the comparison \<open>b.score - a.score\<close> the model of \<^verbatim>\<open>sort\<close> is the library's stable
  sort on the negated score: the candidates come out by descending score, equal scores in
  their original order.
\<close>

lemma insert_by_insort_key:
  "insert_by (\<lambda>a b. f b - f a) x ys = insort_key (\<lambda>c. - f c) x ys"
  by (induction ys) simp_all

lemma sort_by_sort_key:
  "sort_by (\<lambda>a b. f b - f a) xs = sort_key (\<lambda>c. - f c) (xs :: 'a list)"
  by (induction xs) (simp_all add: sort_by_Nil sort_by_Cons insert_by_insort_key)

lemma getDominantState_cases:
  "getDominantState p =
    (let s = params.stress p; t = params.tension p; a = params.aggression p;
         e = 100 - energy p; b = 100 - balance p
     in if s < 40 \<and> t < 40 \<and> a < 40 \<and> e < 40 \<and> b < 40 then ''balanced''
        else if t \<le> s \<and> a \<le> s \<and> e \<le> s \<and> b \<le> s then ''high-stress''
        else if s < t \<and> a \<le> t \<and> e \<le> t \<and> b \<le> t then ''high-tension''
        else if s < a \<and> t < a \<and> e \<le> a \<and> b \<le> a then ''high-aggression''
        else if s < e \<and> t < e \<and> a < e \<and> b \<le> e then ''low-energy''
        else ''low-balance'')"
  unfolding getDominantState_def Let_def
  apply (simp only: hd_sort_by_Cons hd_sort_by_single candidate.select_convs)
  apply (simp only: diff_le_0_iff_le)
  apply (auto simp: not_le not_less)
  done

text \<open>
  Claim C2. For every params object (the five scores being any reals, so in particular
  those in the range 0 to 100), \<open>getDominantState\<close> returns \<open>balanced\<close> exactly when
  the five candidate scores stress, tension, aggression, 100 - energy and 100 - balance are
  all below 40. Otherwise it returns the key of a candidate of maximal score, and among
  several of maximal score the first in the order high-stress, high-tension,
  high-aggression, low-energy, low-balance: a candidate wins when no earlier one reaches
  its score and no later one exceeds it.
\<close>

theorem getDominantState_priority:
  "(let s = params.stress p; t = params.tension p; a = params.aggression p;
        e = 100 - energy p; b = 100 - balance p
    in ((getDominantState p = ''balanced'') =
          (s < 40 \<and> t < 40 \<and> a < 40 \<and> e < 40 \<and> b < 40)) \<and>
       getDominantState p =
         (if s < 40 \<and> t < 40 \<and> a < 40 \<and> e < 40 \<and> b < 40 then ''balanced''
          else if t \<le> s \<and> a \<le> s \<and> e \<le> s \<and> b \<le> s then ''high-stress''
          else if s < t \<and> a \<le> t \<and> e \<le> t \<and> b \<le> t then ''high-tension''
          else if s < a \<and> t < a \<and> e \<le> a \<and> b \<le> a then ''high-aggression''
          else if s < e \<and> t < e \<and> a < e \<and> b \<le> e then ''low-energy''
          else ''low-balance''))"
  unfolding getDominantState_cases Let_def by simp

section \<open>The worked examples\<close>

lemma defaults_params:
  "profile.params (compute now None None None None) =
     \<lparr> params.aggression = 30, params.stress = 25, params.tension = 20, suspect = 25,
       balance = 60, charm = 62, energy = 50, selfRegulation = 61, inhibition = 40,
       neuroticism = 20 \<rparr>"
  by (simp add: compute_params no_metrics_def no_biometrics_def no_deception_def js_round_def)

lemma defaults_dominant:
  "getDominantState (profile.params (compute now None None None None)) = ''low-energy''"
  by (simp add: defaults_params getDominantState_cases)

lemma defaults_quadrant:
  "quadrant (profile.stateOfMind (compute now None None None None)) = ''Calm & Content''"
  by (simp add: compute_stateOfMind defaults_params classifyStateOfMind_def js_round_def)

text \<open>
  Claim C3 as stated fails: with the four snapshots absent the dominant state is not
  \<open>balanced\<close>. The default energy of 50 gives the low-energy candidate the score 50, which
  reaches the threshold of 40.
\<close>

theorem defaults_not_balanced:
  "\<not> (getDominantState (profile.params (compute 0 None None None None)) = ''balanced'' \<and>
      quadrant (profile.stateOfMind (compute 0 None None None None)) = ''Calm & Content'')"
  by (simp add: defaults_dominant)

text \<open>
  Claim C3, amended. With every snapshot absent the primary parameters take their defaults
  (aggression 30, stress 25, tension 20, suspect 25, balance 60, energy 50, neuroticism 20),
  the dominant state is \<open>low-energy\<close> and the quadrant of the state of mind is
  \<open>Calm & Content\<close>.
\<close>

theorem defaults_low_energy:
  "(let pr = compute now None None None None; p = profile.params pr in
     params.aggression p = 30 \<and> params.stress p = 25 \<and> params.tension p = 20 \<and>
     suspect p = 25 \<and> balance p = 60 \<and> energy p = 50 \<and> neuroticism p = 20 \<and>
     getDominantState p = ''low-energy'' \<and>
     quadrant (profile.stateOfMind pr) = ''Calm & Content'')"
  unfolding Let_def by (simp add: defaults_dominant defaults_quadrant) (simp add: defaults_params)

lemma example_params:
  "profile.params (compute now (Some threat_example) None None None) =
     \<lparr> params.aggression = 80, params.stress = 70, params.tension = 60, suspect = 50,
       balance = 20, charm = 62, energy = 50, selfRegulation = 41, inhibition = 40,
       neuroticism = 20 \<rparr>"
  by (simp add: compute_params threat_example_def no_biometrics_def no_deception_def
        js_round_def)

lemma example_dominant:
  "getDominantState (profile.params (compute now (Some threat_example) None None None)) =
     ''high-aggression''"
  by (simp add: example_params getDominantState_cases)

text \<open>
  The standard deviation of 80, 70, 60 and 20 is the square root of 518.75, above 22, so
  twice its value, rounded, is above 30.
\<close>

lemma example_label:
  "label (emotionalVariation (compute now (Some threat_example) None None None)) =
     ''Unstable''"
proof -
  have "(22::real) \<le> sqrt (2075 / 4)"
    by (rule real_le_rsqrt) simp
  then have "(31::int) \<le> \<lfloor>sqrt (2075 / 4) * 2 + 1 / 2\<rfloor>"
    by (simp add: le_floor_iff)
  then have "real_of_int 31 \<le> js_round (sqrt (2075 / 4) * 2)"
    unfolding js_round_def by (simp only: of_int_le_iff)
  then have "30 < js_round (sqrt (2075 / 4) * 2)" by simp
  then show ?thesis
    by (simp add: compute_emotionalVariation example_params computeEmotionalVariation_def
          Let_def power2_eq_square)
qed

text \<open>
  Claim C4 as stated fails: for the example threat snapshot the dominant state is not
  \<open>high-stress\<close>. Aggression scores 80 and so does 100 - balance; stress scores 70.
\<close>

theorem example_not_high_stress:
  "\<not> (balance (profile.params (compute 0 (Some threat_example) None None None)) = 20 \<and>
      label (emotionalVariation (compute 0 (Some threat_example) None None None)) =
        ''Unstable'' \<and>
      getDominantState (profile.params (compute 0 (Some threat_example) None None None)) =
        ''high-stress'')"
  by (simp add: example_dominant)

text \<open>
  Claim C4, amended. For the example threat snapshot, the other snapshots absent,
  \<open>compute\<close> yields balance 20 and the emotional-variation label \<open>Unstable\<close>, and
  \<open>getDominantState\<close> on the resulting params returns \<open>high-aggression\<close> (the maximal
  score is 80, shared by aggression and low balance, and aggression comes first).
\<close>

theorem example_high_aggression:
  "(let pr = compute now (Some threat_example) None None None in
     balance (profile.params pr) = 20 \<and>
     label (emotionalVariation pr) = ''Unstable'' \<and>
     getDominantState (profile.params pr) = ''high-aggression'')"
  unfolding Let_def by (simp add: example_dominant example_label) (simp add: example_params)

section \<open>Defaults and the value zero\<close>

lemma or_default_nonzero: "v \<noteq> 0 \<Longrightarrow> clamp (or_default (Some (Num (Fin v))) d) = clamp (Fin v)"
  by simp

lemma or_default_absent: "clamp (or_default None d) = clamp (Fin d)"
  by simp

text \<open>
  Claim C5 says that a field present with the value 0 gives the parameter 0, never the
  default. The code reads the field with \<^verbatim>\<open>||\<close>, for which 0 is as good as absent: an
  aggression of exactly 0 in the threat snapshot gives the parameter 30, where rounding and
  clamping 0 gives 0.
\<close>

theorem zero_field_takes_default:
  "params.aggression
     (profile.params (compute 0 (Some threat_zero_aggression) None None None)) = 30 \<and>
   clamp (Fin 0) = 0"
  by (simp add: compute_params threat_zero_aggression_def no_metrics_def js_round_def)

section \<open>The streaming client: lines and chunks\<close>

lemma split_acc_nonempty: "split_acc cur s \<noteq> []"
  by (induction s arbitrary: cur) simp_all

lemma split_acc_no_newline: "newline \<notin> set s \<Longrightarrow> split_acc cur s = [cur @ s]"
  by (induction s arbitrary: cur) auto

lemma last_split_acc_no_newline:
  "newline \<notin> set cur \<Longrightarrow> newline \<notin> set (last (split_acc cur s))"
  by (induction s arbitrary: cur) (simp_all add: split_acc_nonempty)

lemma split_acc_append:
  "split_acc cur (a @ b) = butlast (split_acc cur a) @ split_acc (last (split_acc cur a)) b"
  by (induction a arbitrary: cur) (simp_all add: split_acc_nonempty)

lemma split_acc_cur: "newline \<notin> set x \<Longrightarrow> split_acc cur (x @ s) = split_acc (cur @ x) s"
  by (induction x arbitrary: cur) auto

lemma split_nl_Nil: "split_nl [] = [[]]"
  by (simp add: split_nl_def)

lemma split_nl_nonempty: "split_nl s \<noteq> []"
  by (simp add: split_nl_def split_acc_nonempty)

lemma split_nl_no_newline: "newline \<notin> set s \<Longrightarrow> split_nl s = [s]"
  by (simp add: split_nl_def split_acc_no_newline)

lemma last_split_nl_no_newline: "newline \<notin> set (last (split_nl s))"
  by (simp add: split_nl_def last_split_acc_no_newline)

text \<open>
  Splitting a text in two pieces: the complete lines of the first piece, then the split of
  its unfinished line followed by the second piece. This is the step of the reading loop.
\<close>

lemma split_nl_append:
  "split_nl (a @ b) = butlast (split_nl a) @ split_nl (last (split_nl a) @ b)"
proof -
  have "split_acc [] (last (split_nl a) @ b) = split_acc ([] @ last (split_nl a)) b"
    by (rule split_acc_cur) (rule last_split_nl_no_newline)
  then show ?thesis
    by (simp add: split_nl_def split_acc_append [of "[]" a b])
qed

lemma split_nl_line:
  "newline \<notin> set l \<Longrightarrow> split_nl (l @ newline # s) = l # split_nl s"
  by (simp add: split_nl_def split_acc_cur)

lemma for_lines_append:
  "for_lines parse (xs @ ys) =
     (if snd (for_lines parse xs) then for_lines parse xs
      else (fst (for_lines parse xs) @ fst (for_lines parse ys), snd (for_lines parse ys)))"
  by (induction xs) (auto simp: Let_def split: option.splits)

text \<open>
  The loop yields what the complete lines of the whole text yield: the lines of the buffer
  followed by all chunks, the piece after the last newline left out.
\<close>

lemma read_loop_lines:
  "newline \<notin> set buffer \<Longrightarrow>
   read_loop parse buffer chunks =
     for_lines parse (butlast (split_nl (buffer @ concat chunks)))"
proof (induction chunks arbitrary: buffer)
  case Nil
  then show ?case by (simp add: split_nl_no_newline)
next
  case (Cons v rest)
  let ?ls = "split_nl (buffer @ v)"
  have ih: "read_loop parse (last ?ls) rest =
      for_lines parse (butlast (split_nl (last ?ls @ concat rest)))"
    by (rule Cons.IH) (rule last_split_nl_no_newline)
  have "split_nl (buffer @ concat (v # rest)) =
      butlast ?ls @ split_nl (last ?ls @ concat rest)"
    using split_nl_append [of "buffer @ v" "concat rest"] by simp
  then have "butlast (split_nl (buffer @ concat (v # rest))) =
      butlast ?ls @ butlast (split_nl (last ?ls @ concat rest))"
    by (simp add: butlast_append split_nl_nonempty)
  then show ?case
    by (simp add: Let_def ih for_lines_append prod_eq_iff)
qed

lemma chat_lines: "chat parse chunks = for_lines parse (butlast (split_nl (concat chunks)))"
  unfolding chat_def using read_loop_lines [of "[]" parse chunks] by simp

lemma chat_concat: "chat parse chunks = chat parse [concat chunks]"
  by (simp add: chat_lines)

lemma example_chunks: "chunk1 @ chunk2 = hi_line @ [newline] @ done_line @ [newline]"
  by (simp add: chunk1_def chunk2_def hi_line_def done_line_def)

lemma example_lines:
  "newline \<notin> set hi_line" "newline \<notin> set done_line" "newline \<notin> set ''not json''"
  "\<not> blank hi_line" "\<not> blank done_line"
  "parse_example hi_line = Some \<lparr> message_content = Some ''Hi'', done_flag = False \<rparr>"
  "parse_example done_line = Some \<lparr> message_content = None, done_flag = True \<rparr>"
  "parse_example ''not json'' = None"
  by (simp_all add: hi_line_def done_line_def newline_def blank_def is_space_def
        parse_example_def)

lemma split_example: "split_nl (chunk1 @ chunk2) = [hi_line, done_line, []]"
  by (simp add: example_chunks split_nl_line example_lines split_nl_Nil)

text \<open>
  Claim C6. The tokens that \<open>chat\<close> yields, and the way it ends, depend on the text of
  the response only, not on the places where it is cut into chunks: two lists of chunks
  with the same concatenation give the same result, so any list of chunks gives the result
  of the single chunk that holds the whole text. In particular, for a parser that reads the
  two lines of the example as a record with the content \<open>Hi\<close> and a record with the
  completion flag, the chunks \<^verbatim>\<open>{"message":{"content":"Hi\<close> and
  \<^verbatim>\<open>"}}\n{"done":true}\n\<close> yield the one token \<open>Hi\<close> and the end of the sequence.
\<close>

theorem chat_chunking:
  "(concat chunks = concat chunks' \<longrightarrow> chat parse chunks = chat parse chunks') \<and>
   chat parse chunks = chat parse [concat chunks] \<and>
   (parse hi_line = Some \<lparr> message_content = Some ''Hi'', done_flag = False \<rparr> \<and>
    parse done_line = Some \<lparr> message_content = None, done_flag = True \<rparr> \<longrightarrow>
    chat parse [chunk1, chunk2] = ([''Hi''], True))"
proof (intro conjI impI)
  assume "concat chunks = concat chunks'"
  then show "chat parse chunks = chat parse chunks'" by (simp add: chat_lines)
next
  show "chat parse chunks = chat parse [concat chunks]" by (rule chat_concat)
next
  assume "parse hi_line = Some \<lparr> message_content = Some ''Hi'', done_flag = False \<rparr> \<and>
    parse done_line = Some \<lparr> message_content = None, done_flag = True \<rparr>"
  then show "chat parse [chunk1, chunk2] = ([''Hi''], True)"
    by (simp add: chat_lines split_example example_lines)
qed

theorem chat_chunking_witness:
  "concat [chunk1, chunk2] = concat [chunk1 @ chunk2] \<and>
   chat parse_example [chunk1, chunk2] = chat parse_example [chunk1 @ chunk2] \<and>
   parse_example hi_line = Some \<lparr> message_content = Some ''Hi'', done_flag = False \<rparr> \<and>
   parse_example done_line = Some \<lparr> message_content = None, done_flag = True \<rparr> \<and>
   chat parse_example [chunk1, chunk2] = ([''Hi''], True)"
proof -
  note t = chat_chunking [of "[chunk1, chunk2]" "[chunk1 @ chunk2]" parse_example]
  have h: "concat [chunk1, chunk2] = concat [chunk1 @ chunk2]" by simp
  have a: "chat parse_example [chunk1, chunk2] = chat parse_example [chunk1 @ chunk2]"
    by (rule mp [OF conjunct1 [OF t] h])
  have b: "chat parse_example [chunk1, chunk2] = ([''Hi''], True)"
    by (rule mp [OF conjunct2 [OF conjunct2 [OF t]]
          conjI [OF example_lines(6) example_lines(7)]])
  show ?thesis by (intro conjI h a example_lines(6) example_lines(7) b)
qed

section \<open>The streaming client: malformed lines, completion, the unfinished line\<close>

text \<open>
  A text that is empty or ends with a newline consists of complete lines: nothing of it is
  carried over into what follows.
\<close>

lemma last_split_nl_complete:
  assumes "pre = [] \<or> last pre = newline"
  shows "last (split_nl pre) = []"
proof (cases "pre = []")
  case True
  then show ?thesis by (simp add: split_nl_def)
next
  case False
  define x where "x = last (split_nl (butlast pre))"
  have nx: "newline \<notin> set x"
    unfolding x_def by (rule last_split_nl_no_newline)
  have "pre = butlast pre @ [newline]"
    using assms False append_butlast_last_id [of pre] by simp
  then have "split_nl pre = split_nl (butlast pre @ [newline])" by simp
  also have "\<dots> = butlast (split_nl (butlast pre)) @ split_nl (x @ [newline])"
    unfolding x_def by (rule split_nl_append)
  also have "split_nl (x @ [newline]) = [x, []]"
    using split_nl_line [OF nx, of "[]"] by (simp add: split_nl_Nil)
  finally show ?thesis by simp
qed

lemma complete_lines_append:
  assumes "pre = [] \<or> last pre = newline"
  shows "split_nl (pre @ s) = butlast (split_nl pre) @ split_nl s"
proof -
  have "split_nl (pre @ s) = butlast (split_nl pre) @ split_nl (last (split_nl pre) @ s)"
    by (rule split_nl_append)
  then show ?thesis by (simp add: last_split_nl_complete [OF assms])
qed

lemma lines_pre_post:
  assumes "pre = [] \<or> last pre = newline"
  shows "butlast (split_nl (pre @ post)) = butlast (split_nl pre) @ butlast (split_nl post)"
  by (simp add: complete_lines_append [OF assms] butlast_append split_nl_nonempty)

lemma lines_line_post:
  assumes "newline \<notin> set l"
  shows "butlast (split_nl (l @ newline # post)) = l # butlast (split_nl post)"
  by (simp add: split_nl_line [OF assms] split_nl_nonempty)

lemma chat_pre:
  assumes "pre = [] \<or> last pre = newline"
  shows "chat parse [pre @ s] =
     (if snd (for_lines parse (butlast (split_nl pre)))
      then for_lines parse (butlast (split_nl pre))
      else (fst (for_lines parse (butlast (split_nl pre)))
              @ fst (for_lines parse (butlast (split_nl s))),
            snd (for_lines parse (butlast (split_nl s)))))"
  by (simp add: chat_lines lines_pre_post [OF assms] for_lines_append)

lemma chat_pre_partial:
  assumes "pre = [] \<or> last pre = newline" "newline \<notin> set s"
  shows "chat parse [pre @ s] = for_lines parse (butlast (split_nl pre))"
  by (simp add: chat_pre [OF assms(1)] split_nl_no_newline [OF assms(2)] prod_eq_iff)

lemma chat_hi: "chat parse_example [hi_line @ [newline]] = ([''Hi''], False)"
proof -
  have "butlast (split_nl (hi_line @ newline # [])) = hi_line # butlast (split_nl [])"
    by (rule lines_line_post) (rule example_lines)
  then show ?thesis
    by (simp add: chat_lines split_nl_Nil example_lines)
qed

text \<open>
  Claim C7, in three parts. The response text is written as complete lines \<open>pre\<close>
  (empty, or ending with a newline), then the line or piece in question, then the rest; the
  chunks may cut it anywhere.
  \<^item> A complete line \<open>bad\<close> on which the parser throws is passed over: the result is that
    of the text without the line.
  \<^item> A complete line \<open>l\<close> that parses to a record with the completion flag ends the
    sequence: the result is that of the text up to and including this line, whatever comes
    after it, and the sequence has ended on the flag.
  \<^item> A last piece \<open>partial\<close> without a newline, left in the buffer when the transport
    ends, is dropped: the result is that of the complete lines alone, also when the piece
    is a well-formed record.
\<close>

theorem chat_skip_done_discard:
  "(concat chunks_a = pre_a @ bad @ [newline] @ post_a \<and> concat chunks_a' = pre_a @ post_a \<and>
    (pre_a = [] \<or> last pre_a = newline) \<and> newline \<notin> set bad \<and> parse bad = None
      \<longrightarrow> chat parse chunks_a = chat parse chunks_a') \<and>
   (concat chunks_b = pre_b @ l @ [newline] @ post_b \<and>
    (pre_b = [] \<or> last pre_b = newline) \<and> newline \<notin> set l \<and> \<not> blank l \<and>
    parse l = Some json \<and> done_flag json
      \<longrightarrow> chat parse chunks_b = chat parse [pre_b @ l @ [newline]] \<and>
          snd (chat parse chunks_b)) \<and>
   (concat chunks_c = pre_c @ partial \<and> (pre_c = [] \<or> last pre_c = newline) \<and>
    newline \<notin> set partial
      \<longrightarrow> chat parse chunks_c = chat parse [pre_c])"
proof (intro conjI impI)
  assume a: "concat chunks_a = pre_a @ bad @ [newline] @ post_a \<and>
    concat chunks_a' = pre_a @ post_a \<and>
    (pre_a = [] \<or> last pre_a = newline) \<and> newline \<notin> set bad \<and> parse bad = None"
  then have pre: "pre_a = [] \<or> last pre_a = newline" and l: "newline \<notin> set bad"
    by simp_all
  have "chat parse chunks_a = chat parse [pre_a @ (bad @ newline # post_a)]"
    using a by (simp add: chat_concat [of parse chunks_a])
  also have "\<dots> = chat parse [pre_a @ post_a]"
    using a by (simp add: chat_pre [OF pre] lines_line_post [OF l])
  also have "\<dots> = chat parse chunks_a'"
    using a by (simp add: chat_concat [of parse chunks_a'])
  finally show "chat parse chunks_a = chat parse chunks_a'" .
next
  assume a: "concat chunks_b = pre_b @ l @ [newline] @ post_b \<and>
    (pre_b = [] \<or> last pre_b = newline) \<and> newline \<notin> set l \<and> \<not> blank l \<and>
    parse l = Some json \<and> done_flag json"
  then have pre: "pre_b = [] \<or> last pre_b = newline" and l: "newline \<notin> set l"
    by simp_all
  have c: "chat parse chunks_b = chat parse [pre_b @ (l @ newline # post_b)]"
    using a by (simp add: chat_concat [of parse chunks_b])
  have "chat parse [pre_b @ (l @ newline # post_b)] = chat parse [pre_b @ (l @ newline # [])]"
    using a by (simp add: chat_pre [OF pre] lines_line_post [OF l] Let_def)
  with c show "chat parse chunks_b = chat parse [pre_b @ l @ [newline]]" by simp
  show "snd (chat parse chunks_b)"
    using a by (simp add: c chat_pre [OF pre] lines_line_post [OF l] Let_def)
next
  assume a: "concat chunks_c = pre_c @ partial \<and> (pre_c = [] \<or> last pre_c = newline) \<and>
    newline \<notin> set partial"
  then have pre: "pre_c = [] \<or> last pre_c = newline" by simp
  have "chat parse chunks_c = chat parse [pre_c @ partial]"
    using a by (simp add: chat_concat [of parse chunks_c])
  also have "\<dots> = for_lines parse (butlast (split_nl pre_c))"
    using a by (intro chat_pre_partial [OF pre]) simp
  also have "\<dots> = chat parse [pre_c @ []]"
    by (rule chat_pre_partial [OF pre, symmetric]) simp
  finally show "chat parse chunks_c = chat parse [pre_c]" by simp
qed

text \<open>
  The three parts on the example parser: a line \<open>not json\<close>, cut in two chunks, in front of
  the \<open>Hi\<close> line; a second \<open>Hi\<close> line after the completion record; and a \<open>Hi\<close> line
  without its newline at the end of the transport.
\<close>

theorem chat_skip_done_discard_witness:
  "chat parse_example [''not '', ''json'' @ [newline] @ hi_line @ [newline]] =
     chat parse_example [hi_line @ [newline]] \<and>
   chat parse_example [hi_line @ [newline]] = ([''Hi''], False) \<and>
   chat parse_example [chunk1, chunk2 @ hi_line @ [newline]] =
     chat parse_example [(hi_line @ [newline]) @ done_line @ [newline]] \<and>
   snd (chat parse_example [chunk1, chunk2 @ hi_line @ [newline]]) \<and>
   chat parse_example [hi_line @ [newline], hi_line] = chat parse_example [hi_line @ [newline]]"
proof -
  note t = chat_skip_done_discard [where parse = parse_example
      and chunks_a = "[''not '', ''json'' @ [newline] @ hi_line @ [newline]]"
      and chunks_a' = "[hi_line @ [newline]]" and pre_a = "[]" and bad = "''not json''"
      and post_a = "hi_line @ [newline]"
      and chunks_b = "[chunk1, chunk2 @ hi_line @ [newline]]" and pre_b = "hi_line @ [newline]"
      and l = done_line and post_b = "hi_line @ [newline]"
      and json = "\<lparr> message_content = None, done_flag = True \<rparr>"
      and chunks_c = "[hi_line @ [newline], hi_line]" and pre_c = "hi_line @ [newline]"
      and partial = hi_line]
  have ha: "concat [''not '', ''json'' @ [newline] @ hi_line @ [newline]] =
        [] @ ''not json'' @ [newline] @ hi_line @ [newline] \<and>
      concat [hi_line @ [newline]] = [] @ hi_line @ [newline] \<and>
      ([] = [] \<or> last [] = newline) \<and> newline \<notin> set ''not json'' \<and>
      parse_example ''not json'' = None"
    by (simp add: example_lines newline_def)
  have hb: "concat [chunk1, chunk2 @ hi_line @ [newline]] =
        (hi_line @ [newline]) @ done_line @ [newline] @ hi_line @ [newline] \<and>
      (hi_line @ [newline] = [] \<or> last (hi_line @ [newline]) = newline) \<and>
      newline \<notin> set done_line \<and> \<not> blank done_line \<and>
      parse_example done_line = Some \<lparr> message_content = None, done_flag = True \<rparr> \<and>
      done_flag \<lparr> message_content = None, done_flag = True \<rparr>"
    by (simp add: example_lines) (simp add: chunk1_def chunk2_def hi_line_def done_line_def)
  have hc: "concat [hi_line @ [newline], hi_line] = (hi_line @ [newline]) @ hi_line \<and>
      (hi_line @ [newline] = [] \<or> last (hi_line @ [newline]) = newline) \<and>
      newline \<notin> set hi_line"
    by (simp add: example_lines)
  have ca: "chat parse_example [''not '', ''json'' @ [newline] @ hi_line @ [newline]] =
     chat parse_example [hi_line @ [newline]]"
    by (rule mp [OF conjunct1 [OF t] ha])
  note rb = mp [OF conjunct1 [OF conjunct2 [OF t]] hb]
  have cc: "chat parse_example [hi_line @ [newline], hi_line] =
      chat parse_example [hi_line @ [newline]]"
    by (rule mp [OF conjunct2 [OF conjunct2 [OF t]] hc])
  show ?thesis by (intro conjI ca chat_hi conjunct1 [OF rb] conjunct2 [OF rb] cc)
qed

section \<open>Starting a scan while one is running\<close>

lemma startScan_scanning: "appState s = SCANNING \<Longrightarrow> startScan env s = stopScan s"
  by (simp add: startScan_def)

lemma stopScan_fields:
  "appState (stopScan s) = READY" "\<not> isScanning (stopScan s)" "\<not> scanTimer (stopScan s)"
  "\<not> cameraStream (stopScan s)" "\<not> audioStream (stopScan s)"
  "frameCount (stopScan s) = frameCount s"
  "cameraRequests (stopScan s) = cameraRequests s"
  "microphoneRequests (stopScan s) = microphoneRequests s"
  "engineResets (stopScan s) = engineResets s"
  "scanHistory (stopScan s) = scanHistory s"
  "storedHistory (stopScan s) = storedHistory s"
  by (simp_all add: stopScan_def stopCamera_def stopMicrophone_def)

lemma scanning_example:
  "appState (startScan granted_env ready_app) = SCANNING"
  "isScanning (startScan granted_env ready_app)"
  "cameraRequests (startScan granted_env ready_app) = 1"
  "frameCount (startScan granted_env ready_app) = 0"
  "scanHistory (startScan granted_env ready_app) = []"
  "storedHistory (startScan granted_env ready_app) = None"
  by (simp_all add: startScan_def startCamera_def startMicrophone_def granted_env_def
        ready_app_def)

text \<open>
  Claim C8 as stated fails for \<open>startScan\<close>: called on a session that is scanning, it
  does not leave the session as it is. The scan that was started from the ready session is
  stopped by the second call, and the state is \<open>READY\<close>.
\<close>

theorem startScan_toggles_off:
  "appState (startScan granted_env ready_app) = SCANNING \<and>
   appState (startScan granted_env (startScan granted_env ready_app)) = READY \<and>
   \<not> isScanning (startScan granted_env (startScan granted_env ready_app)) \<and>
   startScan granted_env (startScan granted_env ready_app) \<noteq> startScan granted_env ready_app"
proof -
  have r: "appState (startScan granted_env (startScan granted_env ready_app)) = READY"
    by (simp add: startScan_scanning [OF scanning_example(1)] stopScan_fields)
  have i: "\<not> isScanning (startScan granted_env (startScan granted_env ready_app))"
    by (simp add: startScan_scanning [OF scanning_example(1)] stopScan_fields)
  have "startScan granted_env (startScan granted_env ready_app) \<noteq>
      startScan granted_env ready_app"
  proof
    assume "startScan granted_env (startScan granted_env ready_app) =
      startScan granted_env ready_app"
    then have "appState (startScan granted_env (startScan granted_env ready_app)) = SCANNING"
      by (simp add: scanning_example)
    with r show False by simp
  qed
  with r i scanning_example(1) show ?thesis by simp
qed

text \<open>
  Claim C8, amended. A request to start a scan while one is running never starts a second
  scan: no camera and no microphone is requested, the engines are not rebuilt and
  \<open>frameCount\<close> is unchanged. In the avatar-first orchestrator (\<open>triggerScan\<close>, when
  \<open>isScanning\<close>) the request does nothing at all and the scan goes on. In the orchestrator
  with the state machine (\<open>startScan\<close>, in the state \<open>SCANNING\<close>) the request is
  \<open>stopScan\<close>: the scan in progress is stopped, the state is \<open>READY\<close>, the countdown is
  cleared and camera and microphone are released.
\<close>

theorem start_while_scanning:
  "(isScanning s \<longrightarrow> triggerScan env s = s) \<and>
   (appState s = SCANNING \<longrightarrow>
      startScan env s = stopScan s \<and>
      appState (startScan env s) = READY \<and>
      \<not> isScanning (startScan env s) \<and>
      \<not> scanTimer (startScan env s) \<and>
      \<not> cameraStream (startScan env s) \<and>
      \<not> audioStream (startScan env s) \<and>
      frameCount (startScan env s) = frameCount s \<and>
      cameraRequests (startScan env s) = cameraRequests s \<and>
      microphoneRequests (startScan env s) = microphoneRequests s \<and>
      engineResets (startScan env s) = engineResets s)"
  by (simp add: triggerScan_def startScan_scanning stopScan_fields)

theorem start_while_scanning_witness:
  "isScanning (triggerScan granted_env ready_app) \<and>
   triggerScan granted_env (triggerScan granted_env ready_app) =
     triggerScan granted_env ready_app \<and>
   appState (startScan granted_env ready_app) = SCANNING \<and>
   startScan granted_env (startScan granted_env ready_app) =
     stopScan (startScan granted_env ready_app) \<and>
   appState (startScan granted_env (startScan granted_env ready_app)) = READY \<and>
   cameraRequests (startScan granted_env (startScan granted_env ready_app)) = 1 \<and>
   frameCount (startScan granted_env (startScan granted_env ready_app)) = 0"
proof -
  have b: "isScanning (triggerScan granted_env ready_app)"
    by (simp add: triggerScan_def startCamera_bg_def startMicrophone_def granted_env_def
          ready_app_def)
  note t1 = start_while_scanning [of "triggerScan granted_env ready_app" granted_env]
  note t2 = start_while_scanning [of "startScan granted_env ready_app" granted_env]
  have c1: "triggerScan granted_env (triggerScan granted_env ready_app) =
      triggerScan granted_env ready_app"
    by (rule mp [OF conjunct1 [OF t1] b])
  have a: "appState (startScan granted_env ready_app) = SCANNING"
    by (rule scanning_example(1))
  note r = mp [OF conjunct2 [OF t2] a]
  from r have r1: "startScan granted_env (startScan granted_env ready_app) =
      stopScan (startScan granted_env ready_app)"
    and r2: "appState (startScan granted_env (startScan granted_env ready_app)) = READY"
    and r3: "frameCount (startScan granted_env (startScan granted_env ready_app)) =
      frameCount (startScan granted_env ready_app)"
    and r4: "cameraRequests (startScan granted_env (startScan granted_env ready_app)) =
      cameraRequests (startScan granted_env ready_app)"
    by blast+
  have c3: "cameraRequests (startScan granted_env (startScan granted_env ready_app)) = 1"
    by (simp only: r4 scanning_example(3))
  have c4: "frameCount (startScan granted_env (startScan granted_env ready_app)) = 0"
    by (simp only: r3 scanning_example(4))
  show ?thesis by (intro conjI b c1 a r1 r2 c3 c4)
qed

section \<open>A failure while analysing\<close>

lemma analyse_failing: "analyse failing_env = Inl (Error ''frame history unavailable'')"
  by (simp add: analyse_def failing_env_def ok_env_def)

lemma analyse_null_throw: "analyse null_throw_env = Inl Nullish"
  by (simp add: analyse_def null_throw_env_def ok_env_def)

lemma analyse_ok: "analyse ok_env = Inr (compute 34000 (Some threat_example) None None None)"
  by (simp add: analyse_def ok_env_def)

text \<open>
  The analysis fails exactly when one of the calls that is reached throws. The fusion itself
  is a total function and adds no failure of its own.
\<close>

lemma analyse_throws:
  "(\<exists>err. analyse env = Inl err) =
     (isl (vsa_fullAnalysis env) \<or> isl (threat_fullAnalysis env) \<or>
      (\<exists>v. vsa_fullAnalysis env = Inr v \<and> isl (deception_fullAnalysis env v)) \<or>
      isl (neuro_analyze env))"
  by (auto simp: analyse_def isl_def split: sum.splits)

text \<open>
  When the thrown value is not \<^verbatim>\<open>null\<close> or \<^verbatim>\<open>undefined\<close>, the orchestrator with the state
  machine recovers: the state is \<open>READY\<close>, a toast of type \<open>error\<close> carries the message,
  the histories and the last profile are what they were, and the devices are released.
\<close>

lemma completeScan_failure:
  assumes "analyse env = Inl (Error msg)"
  shows "fst (completeScan env s) = Fulfilled"
    "appState (snd (completeScan env s)) = READY"
    "toast (snd (completeScan env s)) = Some (''Analysis error: '' @ msg, ''error'')"
    "scanHistory (snd (completeScan env s)) = scanHistory s"
    "storedHistory (snd (completeScan env s)) = storedHistory s"
    "lastProfile (snd (completeScan env s)) = lastProfile s"
    "\<not> isScanning (snd (completeScan env s))"
    "\<not> scanTimer (snd (completeScan env s))"
    "\<not> cameraStream (snd (completeScan env s))"
    "\<not> audioStream (snd (completeScan env s))"
  using assms
  by (simp_all add: completeScan_def Let_def showToast_def stopCamera_def stopMicrophone_def)

text \<open>
  When the thrown value is \<^verbatim>\<open>null\<close> or \<^verbatim>\<open>undefined\<close>, the handler of the orchestrator
  with the state machine throws in its turn: the promise is rejected and the session is
  left as it was when the analysis began, in the state \<open>ANALYZING\<close>, with the devices it
  held and without a toast.
\<close>

lemma completeScan_nullish:
  assumes "analyse env = Inl Nullish"
  shows "completeScan env s =
     (Rejected, s \<lparr> isScanning := False, scanTimer := False, appState := ANALYZING \<rparr>)"
  using assms by (simp add: completeScan_def Let_def)

text \<open>
  The avatar-first orchestrator recovers from any thrown value: the session is no longer
  scanning, an assistant bubble says that the reading failed, the histories and the last
  profile are what they were, and the devices are released.
\<close>

lemma completeScan_bg_failure:
  assumes "analyse env = Inl err"
  shows "chatBubbles (completeScan_bg env s) = chatBubbles s @
           [(''assistant'', ''I had trouble reading you this time. Let's just chat instead!'')]"
    "avatarState (completeScan_bg env s) = ''idle''"
    "scanHistory (completeScan_bg env s) = scanHistory s"
    "storedHistory (completeScan_bg env s) = storedHistory s"
    "lastProfile (completeScan_bg env s) = lastProfile s"
    "\<not> isScanning (completeScan_bg env s)"
    "\<not> scanTimer (completeScan_bg env s)"
    "\<not> cameraStream (completeScan_bg env s)"
    "\<not> audioStream (completeScan_bg env s)"
  using assms
  by (simp_all add: completeScan_bg_def Let_def appendChatBubble_def stopCamera_def
        stopMicrophone_def)

lemma scanning_example_devices:
  "cameraStream (startScan granted_env ready_app)"
  "audioStream (startScan granted_env ready_app)"
  "toast (startScan granted_env ready_app) = None"
  by (simp_all add: startScan_def startCamera_def startMicrophone_def granted_env_def
        ready_app_def)

text \<open>
  Claim C9 says that when a snapshot call of an engine throws while the scan is completed,
  the failure is caught, the state machine returns to \<open>READY\<close>, a failure signal is shown
  and the stored history is unchanged. In the orchestrator with the state machine this
  fails for a thrown \<^verbatim>\<open>null\<close>: with a scan running on granted devices and the last engine
  call throwing \<^verbatim>\<open>null\<close>, the promise of \<open>completeScan\<close> is rejected, the state stays
  \<open>ANALYZING\<close>, camera and microphone stay held and no toast is shown. The histories are
  unchanged there too. On the same input the avatar-first orchestrator recovers: it appends
  its failure bubble and releases the devices.
\<close>

theorem thrown_null_leaves_analyzing:
  "fst (completeScan null_throw_env (startScan granted_env ready_app)) = Rejected \<and>
   appState (snd (completeScan null_throw_env (startScan granted_env ready_app))) =
     ANALYZING \<and>
   cameraStream (snd (completeScan null_throw_env (startScan granted_env ready_app))) \<and>
   audioStream (snd (completeScan null_throw_env (startScan granted_env ready_app))) \<and>
   toast (snd (completeScan null_throw_env (startScan granted_env ready_app))) = None \<and>
   scanHistory (snd (completeScan null_throw_env (startScan granted_env ready_app))) = [] \<and>
   storedHistory (snd (completeScan null_throw_env (startScan granted_env ready_app))) =
     None \<and>
   chatBubbles (completeScan_bg null_throw_env (startScan granted_env ready_app)) =
     [(''assistant'', ''I had trouble reading you this time. Let's just chat instead!'')] \<and>
   \<not> cameraStream (completeScan_bg null_throw_env (startScan granted_env ready_app)) \<and>
   \<not> audioStream (completeScan_bg null_throw_env (startScan granted_env ready_app))"
proof -
  have bubbles: "chatBubbles (startScan granted_env ready_app) = []"
    by (simp add: startScan_def startCamera_def startMicrophone_def granted_env_def
          ready_app_def)
  show ?thesis
    by (simp add: completeScan_nullish [OF analyse_null_throw]
          completeScan_bg_failure [OF analyse_null_throw]
          scanning_example scanning_example_devices bubbles)
qed

text \<open>With an error object instead of \<^verbatim>\<open>null\<close> the same scan recovers.\<close>

lemma thrown_error_recovers:
  "fst (completeScan failing_env (startScan granted_env ready_app)) = Fulfilled \<and>
   appState (snd (completeScan failing_env (startScan granted_env ready_app))) = READY \<and>
   toast (snd (completeScan failing_env (startScan granted_env ready_app))) =
     Some (''Analysis error: frame history unavailable'', ''error'') \<and>
   \<not> cameraStream (snd (completeScan failing_env (startScan granted_env ready_app))) \<and>
   \<not> audioStream (snd (completeScan failing_env (startScan granted_env ready_app))) \<and>
   scanHistory (snd (completeScan failing_env (startScan granted_env ready_app))) = [] \<and>
   storedHistory (snd (completeScan failing_env (startScan granted_env ready_app))) = None"
  by (simp add: completeScan_failure [OF analyse_failing] scanning_example)

section \<open>The bound of the stored history\<close>

lemma completeScan_success:
  assumes "analyse env = Inr pr"
  shows "scanHistory (snd (completeScan env s)) =
       history_entry_of (entry_now env) pr # scanHistory s"
    "storedHistory (snd (completeScan env s)) =
       Some (take 10 (history_entry_of (entry_now env) pr # scanHistory s))"
    "appState (snd (completeScan env s)) = RESULTS"
    "fst (completeScan env s) = Fulfilled"
  using assms
  by (simp_all add: completeScan_def Let_def showToast_def saveHistory_def stopCamera_def
        stopMicrophone_def)

text \<open>
  Starting and stopping a scan leave both histories alone, so scans may be started and
  stopped between the completed ones.
\<close>

lemma startScan_history:
  "scanHistory (startScan env s) = scanHistory s \<and>
   storedHistory (startScan env s) = storedHistory s"
  by (simp add: startScan_def stopScan_fields startCamera_def startMicrophone_def
        showToast_def Let_def split: device_outcome.splits)

text \<open>
  After a run of completed scans the history in memory is the new entries, the last scan
  first, in front of the old history; and once a scan has completed, the stored history is
  its first ten entries.
\<close>

lemma complete_scans_history:
  "list_all2 (\<lambda>env pr. analyse env = Inr pr) envs prs \<Longrightarrow>
   scanHistory (complete_scans envs s) =
     rev (map2 (\<lambda>env pr. history_entry_of (entry_now env) pr) envs prs) @ scanHistory s \<and>
   (envs \<noteq> [] \<longrightarrow>
      storedHistory (complete_scans envs s) =
        Some (take 10 (scanHistory (complete_scans envs s))))"
proof (induction envs prs arbitrary: s rule: list_all2_induct)
  case Nil
  then show ?case by (simp add: complete_scans_def)
next
  case (Cons env envs pr prs)
  have step: "complete_scans (env # envs) s = complete_scans envs (snd (completeScan env s))"
    by (simp add: complete_scans_def)
  show ?case
  proof (cases "envs = []")
    case True
    then have "prs = []" using Cons.hyps(2) by simp
    then show ?thesis using True Cons.hyps(1)
      by (simp add: complete_scans_def completeScan_success)
  next
    case False
    then show ?thesis
      using Cons.IH [of "snd (completeScan env s)"] Cons.hyps(1)
      by (simp add: step completeScan_success)
  qed
qed

lemma list_all2_replicate_same:
  "P x y \<Longrightarrow> list_all2 P (replicate n x) (replicate n y)"
  by (induction n) simp_all

text \<open>
  Claim C10. Let the scans with the engine answers \<open>envs\<close> all complete, with the profiles
  \<open>prs\<close>, from a session whose stored history is the first ten entries of the history in
  memory (as it is at start-up and after every save). Then the stored history is the first
  ten entries of: the new entries, newest first, followed by the old history. From an empty
  history it therefore has \<open>min n 10\<close> entries after \<open>n\<close> scans, and exactly 10 after 11.
\<close>

theorem history_capped:
  "list_all2 (\<lambda>env pr. analyse env = Inr pr) envs prs \<and>
   loadHistory s = take 10 (scanHistory s) \<longrightarrow>
     loadHistory (complete_scans envs s) =
       take 10 (rev (map2 (\<lambda>env pr. history_entry_of (entry_now env) pr) envs prs)
                @ scanHistory s) \<and>
     (scanHistory s = [] \<longrightarrow>
        length (loadHistory (complete_scans envs s)) = min (length envs) 10) \<and>
     (scanHistory s = [] \<and> length envs = 11 \<longrightarrow>
        length (loadHistory (complete_scans envs s)) = 10)"
proof (intro impI)
  assume a: "list_all2 (\<lambda>env pr. analyse env = Inr pr) envs prs \<and>
    loadHistory s = take 10 (scanHistory s)"
  then have "length envs = length prs" by (auto dest: list_all2_lengthD)
  then have len: "length prs = length envs" by simp
  note h = complete_scans_history [of envs prs s]
  have main: "loadHistory (complete_scans envs s) =
       take 10 (rev (map2 (\<lambda>env pr. history_entry_of (entry_now env) pr) envs prs)
                @ scanHistory s)"
  proof (cases "envs = []")
    case True
    then show ?thesis using a by (simp add: complete_scans_def)
  next
    case False
    then show ?thesis using a h by (simp add: loadHistory_def)
  qed
  have l1: "scanHistory s = [] \<longrightarrow>
      length (loadHistory (complete_scans envs s)) = min (length envs) 10"
    by (simp add: main len)
  then have l2: "scanHistory s = [] \<and> length envs = 11 \<longrightarrow>
      length (loadHistory (complete_scans envs s)) = 10"
    by simp
  show "loadHistory (complete_scans envs s) =
       take 10 (rev (map2 (\<lambda>env pr. history_entry_of (entry_now env) pr) envs prs)
                @ scanHistory s) \<and>
     (scanHistory s = [] \<longrightarrow>
        length (loadHistory (complete_scans envs s)) = min (length envs) 10) \<and>
     (scanHistory s = [] \<and> length envs = 11 \<longrightarrow>
        length (loadHistory (complete_scans envs s)) = 10)"
    by (intro conjI main l1 l2)
qed

text \<open>Eleven scans from the session without history: ten entries are stored.\<close>

theorem history_capped_witness:
  "list_all2 (\<lambda>env pr. analyse env = Inr pr) (replicate 11 ok_env)
     (replicate 11 (compute 34000 (Some threat_example) None None None)) \<and>
   loadHistory ready_app = take 10 (scanHistory ready_app) \<and>
   scanHistory ready_app = [] \<and>
   length (replicate 11 ok_env) = 11 \<and>
   length (loadHistory (complete_scans (replicate 11 ok_env) ready_app)) = 10 \<and>
   loadHistory (complete_scans (replicate 11 ok_env) ready_app) =
     replicate 10 (history_entry_of 34001 (compute 34000 (Some threat_example) None None None))"
proof -
  note t = history_capped [of "replicate 11 ok_env"
      "replicate 11 (compute 34000 (Some threat_example) None None None)" ready_app]
  have h1: "scanHistory ready_app = []" by (simp add: ready_app_def)
  have h2: "loadHistory ready_app = take 10 (scanHistory ready_app)"
    by (simp add: loadHistory_def ready_app_def)
  have h3: "list_all2 (\<lambda>env pr. analyse env = Inr pr) (replicate 11 ok_env)
     (replicate 11 (compute 34000 (Some threat_example) None None None))"
    by (rule list_all2_replicate_same) (rule analyse_ok)
  have h4: "length (replicate 11 ok_env) = 11" by simp
  have e: "entry_now ok_env = 34001" by (simp add: ok_env_def)
  note r = mp [OF t conjI [OF h3 h2]]
  have z: "map2 (\<lambda>env pr. history_entry_of (entry_now env) pr) (replicate 11 ok_env)
          (replicate 11 (compute 34000 (Some threat_example) None None None))
       = replicate 11
           (history_entry_of 34001 (compute 34000 (Some threat_example) None None None))"
    by (simp add: e)
  have c1: "length (loadHistory (complete_scans (replicate 11 ok_env) ready_app)) = 10"
    by (rule mp [OF conjunct2 [OF conjunct2 [OF r]] conjI [OF h1 h4]])
  have c2: "loadHistory (complete_scans (replicate 11 ok_env) ready_app) =
     replicate 10 (history_entry_of 34001 (compute 34000 (Some threat_example) None None None))"
    using conjunct1 [OF r] by (simp only: z h1 rev_replicate append_Nil2 take_replicate) simp
  show ?thesis by (intro conjI h3 h2 h1 h4 c1 c2)
qed

end
